theory Spec2Isabelle
  imports Complex_Main
begin

section \<open>Documents of the store\<close>

text \<open>
  Mongoose ObjectIds are kept in their string form (\<open>toString()\<close> is the identity), so
  \<open>team.coach.toString() !== req.user.id\<close> is an inequality of strings. A JavaScript
  \<open>Number\<close> that the routes validate with \<open>isInt\<close> is an \<open>int\<close>; the win/loss
  counters of a team, which no route validates, are idealised as \<open>real\<close>.
\<close>

type_synonym oid = string

datatype role = Player | Coach | Admin

text \<open>
  Modelled from the spec: \<open>models/User.js\<close> is not among the sources. The spec's User has
  an identity, a role (one of player/coach/admin), a managed team list (coach) and a single
  team and player profile (player); the routes read and write exactly the fields
  \<open>role\<close>, \<open>managedTeams\<close>, \<open>team\<close> and \<open>playerProfile\<close>.
\<close>

record user =
  u_name :: string
  u_email :: string
  u_role :: role
  managedTeams :: "oid list"
  u_team :: "oid option"
  playerProfile :: "oid option"

record team_stats =
  wins :: real
  losses :: real
  winPercentage :: real

record team =
  t_name :: string
  coach :: oid
  description :: "string option"
  foundedYear :: "int option"
  homeVenue :: "string option"
  colors_primary :: string
  colors_secondary :: string
  logo :: "string option"
  t_isActive :: bool
  players :: "oid list"
  stats :: team_stats
  t_createdAt :: int

record player_stats =
  pointsPerGame :: real
  reboundsPerGame :: real
  assistsPerGame :: real
  stealsPerGame :: real
  blocksPerGame :: real

record player =
  p_name :: string
  p_user :: oid
  p_team :: "oid option"
  position :: string
  jerseyNumber :: int
  height :: string
  weight :: int
  age :: int
  p_stats :: player_stats
  p_isActive :: bool
  p_createdAt :: int

record stat_line =
  sl_player :: oid
  points :: int
  rebounds :: int
  assists :: int
  steals :: int
  blocks :: int
  minutesPlayed :: int

datatype game_status = Scheduled | In_progress | Completed | Cancelled

record game =
  homeTeam :: string
  awayTeam :: string
  homeScore :: int
  awayScore :: int
  gameDate :: int
  g_status :: game_status
  quarter :: int
  timeRemaining :: string
  venue :: "string option"
  attendance :: "int option"
  gameStats :: "stat_line list"
  g_createdAt :: int

subsection \<open>Collections\<close>

text \<open>
  A collection is the list of its documents, each with its \<open>_id\<close>, in insertion order.
  \<open>findById\<close> and \<open>findOne\<close> return the first match, \<open>findByIdAndUpdate\<close> rewrites
  it and leaves a collection without the id as it is (no upsert), \<open>findByIdAndDelete\<close>
  removes it.
\<close>

type_synonym 'd collection = "(oid \<times> 'd) list"

definition findById :: "'d collection \<Rightarrow> oid \<Rightarrow> 'd option" where
  "findById c i = map_of c i"

definition findOne :: "'d collection \<Rightarrow> ('d \<Rightarrow> bool) \<Rightarrow> (oid \<times> 'd) option" where
  "findOne c P = List.find (\<lambda>(k, d). P d) c"

fun findByIdAndUpdate :: "oid \<Rightarrow> ('d \<Rightarrow> 'd) \<Rightarrow> 'd collection \<Rightarrow> 'd collection" where
  "findByIdAndUpdate i f [] = []"
| "findByIdAndUpdate i f ((k, d) # c) =
     (if k = i then (k, f d) # c else (k, d) # findByIdAndUpdate i f c)"

definition updateMany :: "('d \<Rightarrow> bool) \<Rightarrow> ('d \<Rightarrow> 'd) \<Rightarrow> 'd collection \<Rightarrow> 'd collection" where
  "updateMany P f c = map (\<lambda>(k, d). if P d then (k, f d) else (k, d)) c"

definition findByIdAndDelete :: "oid \<Rightarrow> 'd collection \<Rightarrow> 'd collection" where
  "findByIdAndDelete i c = filter (\<lambda>(k, d). k \<noteq> i) c"

record store =
  users :: "user collection"
  teams :: "team collection"
  playersC :: "player collection"
  games :: "game collection"

section \<open>Real-time gateway\<close>

text \<open>
  \<open>server.js\<close> creates one Socket.IO server \<open>io\<close> on the http server it makes with
  \<open>http.createServer(app)\<close>, registers \<open>protectSocket\<close> with \<open>io.use\<close> and calls
  \<open>initGameSockets(io)\<close>, which registers its connection handler on
  \<open>io.of("/api/game")\<close>. In Socket.IO a namespace owns its middleware, its sockets and
  its rooms; \<open>io.use\<close>, \<open>io.to\<close> and \<open>io.on\<close> are the operations of the main
  namespace \<open>io.of("/")\<close>. A socket is therefore recorded with its namespace, and a
  broadcast names the namespace whose room it addresses.
\<close>

type_synonym sid = string
type_synonym nsp = string
type_synonym room = string

definition main_nsp :: nsp where
  "main_nsp = ''/''"

definition game_nsp :: nsp where
  "game_nsp = ''/api/game''"

text \<open>The user that \<open>protectSocket\<close> attaches: \<open>select("role name")\<close> keeps id, role and name.\<close>

record sock_user =
  su_id :: oid
  su_role :: role
  su_name :: string

text \<open>
  The payload of \<open>updateGame\<close>: an object with a \<open>gameId\<close> and whatever else the client
  sent; the fields the persisting variant of the handler reads are named, the others are
  kept as text.
\<close>

record update_data =
  gameId :: room
  ud_homeScore :: "int option"
  ud_awayScore :: "int option"
  ud_status :: "string option"
  ud_other :: "(string \<times> string) list"

datatype server_event =
  GameUpdated_doc oid game
| GameUpdated_raw update_data
| ErrorMessage string

record socket =
  s_nsp :: nsp
  s_user :: "sock_user option"
  rooms :: "room set"
  inbox :: "server_event list"

type_synonym gateway = "sid \<rightharpoonup> socket"

text \<open>\<open>nsp.to(room).emit(event)\<close>: every socket of the namespace that is in the room gets the event once.\<close>

definition emit_to :: "nsp \<Rightarrow> room \<Rightarrow> server_event \<Rightarrow> gateway \<Rightarrow> gateway" where
  "emit_to n r ev gw =
     (\<lambda>k. case gw k of
             None \<Rightarrow> None
           | Some s \<Rightarrow>
               if s_nsp s = n \<and> r \<in> rooms s then Some (s\<lparr>inbox := inbox s @ [ev]\<rparr>)
               else Some s)"

subsection \<open>middleware/socketAuth.js\<close>

datatype connect_error =
  No_token_provided | User_not_found | Unauthorized | Invalid_namespace | Not_served

text \<open>
  \<open>jwt_verify\<close> stands for \<open>jwt.verify(token, JWT_SECRET)\<close> followed by \<open>decoded.id\<close>:
  \<open>None\<close> when the call throws, or when the decoded id makes \<open>User.findById\<close> throw;
  the \<open>catch\<close> answers both. An empty token string is falsy, like a missing one.
\<close>

definition protectSocket :: "(string \<Rightarrow> oid option) \<Rightarrow> store \<Rightarrow> string option \<Rightarrow> connect_error + sock_user" where
  "protectSocket jwt_verify st token =
     (case token of
        None \<Rightarrow> Inl No_token_provided
      | Some tk \<Rightarrow>
          if tk = [] then Inl No_token_provided
          else (case jwt_verify tk of
                  None \<Rightarrow> Inl Unauthorized
                | Some uid \<Rightarrow>
                    (case findById (users st) uid of
                       None \<Rightarrow> Inl User_not_found
                     | Some u \<Rightarrow> Inr \<lparr>su_id = uid, su_role = u_role u, su_name = u_name u\<rparr>)))"

subsection \<open>server.js: the handshake\<close>

text \<open>
  What Socket.IO does with a handshake that reaches it. A connection names a namespace. The
  server has the main namespace and the one \<open>initGameSockets\<close> creates; any other is
  refused. The middleware of the namespace runs before the socket is connected:
  \<open>io.use(protectSocket)\<close> puts \<open>protectSocket\<close> on the main namespace, and nothing is
  registered on \<open>/api/game\<close>. A connected socket is in the room named by its own id.
\<close>

definition new_socket :: "nsp \<Rightarrow> sid \<Rightarrow> sock_user option \<Rightarrow> socket" where
  "new_socket n k u = \<lparr>s_nsp = n, s_user = u, rooms = {k}, inbox = []\<rparr>"

definition namespace_handshake :: "(string \<Rightarrow> oid option) \<Rightarrow> store \<Rightarrow> nsp \<Rightarrow> sid \<Rightarrow> string option \<Rightarrow> gateway \<Rightarrow> connect_error + gateway" where
  "namespace_handshake jwt_verify st n k token gw =
     (if n = main_nsp then
        (case protectSocket jwt_verify st token of
           Inl e \<Rightarrow> Inl e
         | Inr u \<Rightarrow> Inr (gw(k \<mapsto> new_socket n k (Some u))))
      else if n = game_nsp then Inr (gw(k \<mapsto> new_socket n k None))
      else Inl Invalid_namespace)"

text \<open>
  The two http servers of \<open>server.js\<close>: the one \<open>http.createServer(app)\<close> returns, which
  \<open>new Server(server, ...)\<close> attaches Socket.IO to, and the one \<open>app.listen(PORT)\<close>
  creates and starts for the Express app alone. \<open>server.listen\<close> is never called, so a
  client's handshake arrives at the second one, where no Socket.IO is attached: it is
  answered by Express (no route matches) and no socket comes to exist, whatever the
  namespace and the token.
\<close>

datatype http_server = Created_server | App_listen_server

definition attached_server :: http_server where
  "attached_server = Created_server"

definition listening_server :: http_server where
  "listening_server = App_listen_server"

definition connect :: "(string \<Rightarrow> oid option) \<Rightarrow> store \<Rightarrow> nsp \<Rightarrow> sid \<Rightarrow> string option \<Rightarrow> gateway \<Rightarrow> connect_error + gateway" where
  "connect jwt_verify st n k token gw =
     (if listening_server = attached_server then namespace_handshake jwt_verify st n k token gw
      else Inl Not_served)"

subsection \<open>sockets/gameSockets.js\<close>

text \<open>
  The server: the store, the connected sockets, and the broadcasts made so far (each
  \<open>io.to(room).emit(event, data)\<close> is one).
\<close>

record broadcast =
  b_nsp :: nsp
  b_room :: room
  b_event :: server_event

record server =
  db :: store
  io :: gateway
  emitted :: "broadcast list"

definition broadcast_to :: "nsp \<Rightarrow> room \<Rightarrow> server_event \<Rightarrow> server \<Rightarrow> server" where
  "broadcast_to n r ev srv =
     srv\<lparr>io := emit_to n r ev (io srv),
         emitted := emitted srv @ [\<lparr>b_nsp = n, b_room = r, b_event = ev\<rparr>]\<rparr>"

datatype client_event = JoinGame room | UpdateGame "update_data option" | Disconnect

datatype crash = TypeError

definition on_joinGame :: "socket \<Rightarrow> room \<Rightarrow> socket" where
  "on_joinGame s g = s\<lparr>rooms := insert g (rooms s)\<rparr>"

text \<open>
  \<open>socket.user?.role === "admin" || socket.user?.role === "coach"\<close>; inside the guard
  \<open>updateData.gameId\<close> throws on a missing payload, and \<open>io.to\<close> addresses the main
  namespace.
\<close>

definition may_push :: "socket \<Rightarrow> bool" where
  "may_push s = (case s_user s of None \<Rightarrow> False | Some u \<Rightarrow> su_role u = Admin \<or> su_role u = Coach)"

definition on_updateGame :: "server \<Rightarrow> socket \<Rightarrow> update_data option \<Rightarrow> crash + server" where
  "on_updateGame srv s updateData =
     (if may_push s then
        (case updateData of
           None \<Rightarrow> Inl TypeError
         | Some d \<Rightarrow> Inr (broadcast_to main_nsp (gameId d) (GameUpdated_raw d) srv))
      else Inr srv)"

text \<open>
  An event of a connected socket reaches the listeners of its namespace's connection
  handler; only \<open>/api/game\<close> has one. A disconnect removes the socket.
\<close>

definition handle_event :: "server \<Rightarrow> sid \<Rightarrow> client_event \<Rightarrow> crash + server" where
  "handle_event srv k ev =
     (case io srv k of
        None \<Rightarrow> Inr srv
      | Some s \<Rightarrow>
          (case ev of
             Disconnect \<Rightarrow> Inr (srv\<lparr>io := (io srv)(k := None)\<rparr>)
           | JoinGame g \<Rightarrow>
               if s_nsp s = game_nsp then Inr (srv\<lparr>io := (io srv)(k \<mapsto> on_joinGame s g)\<rparr>)
               else Inr srv
           | UpdateGame d \<Rightarrow>
               if s_nsp s = game_nsp then on_updateGame srv s d else Inr srv))"

section \<open>REST routers\<close>

subsection \<open>Requests and responses\<close>

text \<open>\<open>req.user\<close>, as the handlers read it: the acting user's id and role.\<close>

record acting =
  a_id :: oid
  a_role :: role

datatype res_body =
  Message string
| Errors "string list"
| GameData game
| TeamData "team option"
| PlayerData "player option"

record response =
  status :: nat
  success :: bool
  body :: res_body

definition failure :: "nat \<Rightarrow> string \<Rightarrow> response" where
  "failure code msg = \<lparr>status = code, success = False, body = Message msg\<rparr>"

definition ok :: "nat \<Rightarrow> res_body \<Rightarrow> response" where
  "ok code b = \<lparr>status = code, success = True, body = b\<rparr>"

text \<open>The \<open>catch\<close> of every handler.\<close>

definition server_error :: response where
  "server_error = failure 500 ''Server error''"

definition validation_errors :: "string list \<Rightarrow> response" where
  "validation_errors es = \<lparr>status = 400, success = False, body = Errors es\<rparr>"

text \<open>
  Modelled from the spec: \<open>middleware/auth.js\<close> (\<open>protect\<close>, \<open>authorize\<close>) is not among
  the sources. The spec: the first gate resolves the acting identity from the bearer
  credential and rejects with "unauthenticated" (401) when it is absent or invalid; the
  second checks the identity's role against the route's allow-list and rejects with
  "forbidden" (403). The request carries the identity the first gate resolves, \<open>None\<close>
  when it rejects.
\<close>

definition gated :: "role list \<Rightarrow> acting option \<Rightarrow> 's \<Rightarrow> (acting \<Rightarrow> response \<times> 's) \<Rightarrow> response \<times> 's" where
  "gated allowed u st handler =
     (case u of
        None \<Rightarrow> (failure 401 ''unauthenticated'', st)
      | Some a \<Rightarrow> if a_role a \<in> set allowed then handler a else (failure 403 ''forbidden'', st))"

text \<open>
  A route parameter that Mongoose casts to the ObjectId \<open>i\<close> is \<open>Oid i\<close>; one it cannot
  cast makes the query throw (\<open>CastError\<close>), which the handler's \<open>catch\<close> answers.
\<close>

datatype param = Oid oid | Uncastable

text \<open>
  \<open>req.body\<close> handed whole to \<open>findByIdAndUpdate\<close> with \<open>runValidators\<close>: the update
  validators either reject it (the call throws) or the store applies it to the document.
\<close>

datatype 'd update_body = Rejected | Update "'d \<Rightarrow> 'd"

text \<open>
  express-validator's \<open>isMongoId\<close> is validator.js's: a string of length 24 that
  \<open>isHexadecimal\<close> accepts, and \<open>isHexadecimal\<close> is the pattern
  \<open>/^(0x|0h)?[0-9A-F]+$/i\<close>. Mongoose casts a string of 24 hexadecimal digits to the
  ObjectId whose string form is in lower case; a query with any other string of length 24
  throws (\<open>CastError\<close>).
\<close>

definition hex_digits :: "string \<Rightarrow> bool" where
  "hex_digits s = list_all (\<lambda>c. c \<in> set ''0123456789abcdefABCDEF'') s"

definition isHexadecimal :: "string \<Rightarrow> bool" where
  "isHexadecimal s =
     (if take 2 s \<in> set [''0x'', ''0X'', ''0h'', ''0H'']
      then drop 2 s \<noteq> [] \<and> hex_digits (drop 2 s)
      else s \<noteq> [] \<and> hex_digits s)"

definition isMongoId :: "string \<Rightarrow> bool" where
  "isMongoId s = (isHexadecimal s \<and> length s = 24)"

definition lower_hex :: "char \<Rightarrow> char" where
  "lower_hex c =
     (if c = CHR ''A'' then CHR ''a'' else if c = CHR ''B'' then CHR ''b''
      else if c = CHR ''C'' then CHR ''c'' else if c = CHR ''D'' then CHR ''d''
      else if c = CHR ''E'' then CHR ''e'' else if c = CHR ''F'' then CHR ''f'' else c)"

definition castObjectId :: "string \<Rightarrow> oid option" where
  "castObjectId s = (if length s = 24 \<and> hex_digits s then Some (map lower_hex s) else None)"

text \<open>\<open>$addToSet\<close> and \<open>$pull\<close> on an array of ids.\<close>

definition addToSet :: "oid \<Rightarrow> oid list \<Rightarrow> oid list" where
  "addToSet x xs = (if x \<in> set xs then xs else xs @ [x])"

definition pull :: "oid \<Rightarrow> oid list \<Rightarrow> oid list" where
  "pull x xs = removeAll x xs"

subsection \<open>models/Team.js: the pre-save hook\<close>

definition pre_save :: "team \<Rightarrow> team" where
  "pre_save t =
     (let totalGames = wins (stats t) + losses (stats t) in
      if totalGames > 0 then t\<lparr>stats := (stats t)\<lparr>winPercentage := wins (stats t) / totalGames\<rparr>\<rparr>
      else t\<lparr>stats := (stats t)\<lparr>winPercentage := 0\<rparr>\<rparr>)"

subsection \<open>routes/teams.js\<close>

text \<open>The ownership check of the team routes: \<open>req.user.role !== 'admin' && team.coach.toString() !== req.user.id\<close>.\<close>

definition not_team_owner :: "acting \<Rightarrow> team \<Rightarrow> bool" where
  "not_team_owner a t = (a_role a \<noteq> Admin \<and> coach t \<noteq> a_id a)"

definition put_team :: "acting option \<Rightarrow> param \<Rightarrow> team update_body \<Rightarrow> store \<Rightarrow> response \<times> store" where
  "put_team u pid b st =
     gated [Admin, Coach] u st (\<lambda>a.
       case pid of
         Uncastable \<Rightarrow> (server_error, st)
       | Oid i \<Rightarrow>
           (case findById (teams st) i of
              None \<Rightarrow> (failure 404 ''Team not found'', st)
            | Some t \<Rightarrow>
                if not_team_owner a t then (failure 403 ''Not authorized to update this team'', st)
                else (case b of
                        Rejected \<Rightarrow> (server_error, st)
                      | Update f \<Rightarrow>
                          (let st1 = st\<lparr>teams := findByIdAndUpdate i f (teams st)\<rparr>
                           in (ok 200 (TeamData (findById (teams st1) i)), st1)))))"

text \<open>
  In the roster route \<open>Player.findById(playerId)\<close> and the three writes cast the body's
  string, while \<open>team.players.includes(playerId)\<close> compares the string as sent with the
  string forms of the ids in the list.
\<close>

definition post_team_player :: "acting option \<Rightarrow> param \<Rightarrow> string \<Rightarrow> store \<Rightarrow> response \<times> store" where
  "post_team_player u pid playerId st =
     gated [Admin, Coach] u st (\<lambda>a.
       if \<not> isMongoId playerId then (validation_errors [''Valid player ID is required''], st)
       else (case pid of
         Uncastable \<Rightarrow> (server_error, st)
       | Oid i \<Rightarrow>
           (case findById (teams st) i of
              None \<Rightarrow> (failure 404 ''Team not found'', st)
            | Some t \<Rightarrow>
                if not_team_owner a t then (failure 403 ''Not authorized to manage this team'', st)
                else (case castObjectId playerId of
                   None \<Rightarrow> (server_error, st)
                 | Some j \<Rightarrow>
                     (case findById (playersC st) j of
                        None \<Rightarrow> (failure 404 ''Player not found'', st)
                      | Some p \<Rightarrow>
                          if playerId \<in> set (players t)
                          then (failure 400 ''Player is already on this team'', st)
                          else
                            (let st1 = st\<lparr>playersC := findByIdAndUpdate j (\<lambda>d. d\<lparr>p_team := Some i\<rparr>) (playersC st)\<rparr>;
                                 st2 = st1\<lparr>teams := findByIdAndUpdate i (\<lambda>d. d\<lparr>players := addToSet j (players d)\<rparr>) (teams st1)\<rparr>;
                                 st3 = st2\<lparr>users := findByIdAndUpdate (p_user p) (\<lambda>d. d\<lparr>u_team := Some i\<rparr>) (users st2)\<rparr>
                             in (ok 200 (TeamData (findById (teams st3) i)), st3)))))))"

definition delete_team_player :: "acting option \<Rightarrow> param \<Rightarrow> param \<Rightarrow> store \<Rightarrow> response \<times> store" where
  "delete_team_player u pid playerId st =
     gated [Admin, Coach] u st (\<lambda>a.
       case pid of
         Uncastable \<Rightarrow> (server_error, st)
       | Oid i \<Rightarrow>
           (case findById (teams st) i of
              None \<Rightarrow> (failure 404 ''Team not found'', st)
            | Some t \<Rightarrow>
                if not_team_owner a t then (failure 403 ''Not authorized to manage this team'', st)
                else (case playerId of
                        Uncastable \<Rightarrow> (server_error, st)
                      | Oid j \<Rightarrow>
                          (case findById (playersC st) j of
                             None \<Rightarrow> (failure 404 ''Player not found'', st)
                           | Some p \<Rightarrow>
                               (let st1 = st\<lparr>teams := findByIdAndUpdate i (\<lambda>d. d\<lparr>players := pull j (players d)\<rparr>) (teams st)\<rparr>;
                                    st2 = st1\<lparr>playersC := findByIdAndUpdate j (\<lambda>d. d\<lparr>p_team := None\<rparr>) (playersC st1)\<rparr>;
                                    st3 = st2\<lparr>users := findByIdAndUpdate (p_user p) (\<lambda>d. d\<lparr>u_team := None\<rparr>) (users st2)\<rparr>
                                in (ok 200 (TeamData (findById (teams st3) i)), st3))))))"

definition delete_team :: "acting option \<Rightarrow> param \<Rightarrow> store \<Rightarrow> response \<times> store" where
  "delete_team u pid st =
     gated [Admin, Coach] u st (\<lambda>a.
       case pid of
         Uncastable \<Rightarrow> (server_error, st)
       | Oid i \<Rightarrow>
           (case findById (teams st) i of
              None \<Rightarrow> (failure 404 ''Team not found'', st)
            | Some t \<Rightarrow>
                if not_team_owner a t then (failure 403 ''Not authorized to delete this team'', st)
                else
                  (let st1 = st\<lparr>playersC := updateMany (\<lambda>d. p_team d = Some i) (\<lambda>d. d\<lparr>p_team := None\<rparr>) (playersC st)\<rparr>;
                       st2 = st1\<lparr>users := findByIdAndUpdate (coach t) (\<lambda>d. d\<lparr>managedTeams := pull i (managedTeams d)\<rparr>) (users st1)\<rparr>;
                       st3 = st2\<lparr>users := updateMany (\<lambda>d. u_team d = Some i) (\<lambda>d. d\<lparr>u_team := None\<rparr>) (users st2)\<rparr>;
                       st4 = st3\<lparr>teams := findByIdAndDelete i (teams st3)\<rparr>
                   in (ok 200 (Message ''Team deleted successfully''), st4))))"

subsection \<open>routes/players.js\<close>

text \<open>
  The body of \<open>POST /api/players\<close>. A field that \<open>isInt\<close> validates is an \<open>int\<close> (the
  validator then checks its range); a missing string field is the empty string. Other
  fields a client may add (\<open>stats\<close>, \<open>isActive\<close>) are left at the schema's defaults.
\<close>

record player_body =
  b_name :: string
  b_user :: string
  b_team :: string
  b_position :: string
  b_jerseyNumber :: int
  b_height :: string
  b_weight :: int
  b_age :: int

text \<open>What the store supplies to a create: the new \<open>_id\<close> and \<open>Date.now\<close>.\<close>

record env =
  new_id :: oid
  now :: int

definition player_validation :: "player_body \<Rightarrow> string list" where
  "player_validation b =
     (if b_name b \<noteq> [] then [] else [''Name is required'']) @
     (if isMongoId (b_user b) then [] else [''Valid user ID is required'']) @
     (if isMongoId (b_team b) then [] else [''Valid team ID is required'']) @
     (if b_position b \<in> set [''PG'', ''SG'', ''SF'', ''PF'', ''C''] then [] else [''Invalid position'']) @
     (if 0 \<le> b_jerseyNumber b \<and> b_jerseyNumber b \<le> 99 then [] else [''Jersey number must be between 0-99'']) @
     (if b_height b \<noteq> [] then [] else [''Height is required'']) @
     (if 100 \<le> b_weight b \<and> b_weight b \<le> 400 then [] else [''Weight must be between 100-400 lbs'']) @
     (if 16 \<le> b_age b \<and> b_age b \<le> 50 then [] else [''Age must be between 16-50''])"

text \<open>
  \<open>Player.create\<close>: the schema trims \<open>name\<close> and \<open>height\<close>, then requires both and
  bounds the name's length; the numeric ranges and the position were checked by the route
  already. A failed validator or a duplicate \<open>_id\<close> throws.
\<close>

text \<open>
  A string is the list of its code units, and a \<open>char\<close> holds those below 256. Of the
  code units \<open>String.prototype.trim\<close> strips, these are tab, line feed, vertical tab,
  form feed, carriage return, space and no-break space; text with code units from 256 on
  is not in the model.
\<close>

definition is_space :: "char \<Rightarrow> bool" where
  "is_space c =
     (c = CHR 0x09 \<or> c = CHR 0x0A \<or> c = CHR 0x0B \<or> c = CHR 0x0C \<or> c = CHR 0x0D
      \<or> c = CHR 0x20 \<or> c = CHR 0xA0)"

definition trim :: "string \<Rightarrow> string" where
  "trim s = rev (dropWhile is_space (rev (dropWhile is_space s)))"

definition new_player :: "env \<Rightarrow> player_body \<Rightarrow> oid \<Rightarrow> oid \<Rightarrow> player" where
  "new_player e b user team =
     \<lparr>p_name = trim (b_name b), p_user = user, p_team = Some team, position = b_position b,
      jerseyNumber = b_jerseyNumber b, height = trim (b_height b), weight = b_weight b,
      age = b_age b,
      p_stats = \<lparr>pointsPerGame = 0, reboundsPerGame = 0, assistsPerGame = 0,
                 stealsPerGame = 0, blocksPerGame = 0\<rparr>,
      p_isActive = True, p_createdAt = now e\<rparr>"

definition player_schema_ok :: "player \<Rightarrow> bool" where
  "player_schema_ok p = (p_name p \<noteq> [] \<and> length (p_name p) \<le> 50 \<and> height p \<noteq> [])"

definition existingPlayer :: "store \<Rightarrow> oid \<Rightarrow> (oid \<times> player) option" where
  "existingPlayer st user = findOne (playersC st) (\<lambda>d. p_user d = user)"

definition jerseyTaken :: "store \<Rightarrow> oid \<Rightarrow> int \<Rightarrow> (oid \<times> player) option" where
  "jerseyTaken st team n = findOne (playersC st) (\<lambda>d. p_team d = Some team \<and> jerseyNumber d = n)"

definition post_player :: "env \<Rightarrow> acting option \<Rightarrow> player_body \<Rightarrow> store \<Rightarrow> response \<times> store" where
  "post_player e u b st =
     gated [Admin, Coach] u st (\<lambda>a.
       if player_validation b \<noteq> [] then (validation_errors (player_validation b), st)
       else
         (case castObjectId (b_user b) of
            None \<Rightarrow> (server_error, st)
          | Some user \<Rightarrow>
         (case findById (users st) user of
            None \<Rightarrow> (failure 400 ''User must exist and have player role'', st)
          | Some ux \<Rightarrow>
              if u_role ux \<noteq> Player then (failure 400 ''User must exist and have player role'', st)
              else (case castObjectId (b_team b) of
                 None \<Rightarrow> (server_error, st)
               | Some team \<Rightarrow>
              (case findById (teams st) team of
                 None \<Rightarrow> (failure 400 ''Team not found'', st)
               | Some tx \<Rightarrow>
                   if a_role a = Coach \<and> coach tx \<noteq> a_id a
                   then (failure 403 ''Not authorized to add players to this team'', st)
                   else (case existingPlayer st user of
                      Some ep \<Rightarrow> (failure 400 ''User already has a player profile'', st)
                    | None \<Rightarrow>
                        (case jerseyTaken st team (b_jerseyNumber b) of
                           Some jt \<Rightarrow>
                             (failure 400 ''Jersey number already taken in this team'', st)
                         | None \<Rightarrow>
                             if player_schema_ok (new_player e b user team)
                                \<and> findById (playersC st) (new_id e) = None
                             then
                               (let st1 = st\<lparr>playersC := playersC st @ [(new_id e, new_player e b user team)]\<rparr>;
                                    st2 = st1\<lparr>users := findByIdAndUpdate user
                                             (\<lambda>d. d\<lparr>u_team := Some team, playerProfile := Some (new_id e)\<rparr>)
                                             (users st1)\<rparr>;
                                    st3 = st2\<lparr>teams := findByIdAndUpdate team
                                             (\<lambda>d. d\<lparr>players := addToSet (new_id e) (players d)\<rparr>)
                                             (teams st2)\<rparr>
                                in (ok 201 (PlayerData (findById (playersC st3) (new_id e))), st3))
                             else (server_error, st))))))))"

text \<open>\<open>Player.findById(id).populate('team')\<close>: the team document, \<open>null\<close> when the reference is unset or dangling.\<close>

definition populate_team :: "store \<Rightarrow> player \<Rightarrow> (oid \<times> team) option" where
  "populate_team st p =
     (case p_team p of
        None \<Rightarrow> None
      | Some t \<Rightarrow> (case findById (teams st) t of None \<Rightarrow> None | Some d \<Rightarrow> Some (t, d)))"

text \<open>
  \<open>req.user.role === 'coach' && player.team.coach.toString() !== req.user.id\<close>: for a coach
  the right operand is evaluated, and reading \<open>coach\<close> of a \<open>null\<close> team throws.
\<close>

definition update_player :: "oid \<Rightarrow> player update_body \<Rightarrow> store \<Rightarrow> response \<times> store" where
  "update_player i b st =
     (case b of
        Rejected \<Rightarrow> (server_error, st)
      | Update f \<Rightarrow>
          (let st1 = st\<lparr>playersC := findByIdAndUpdate i f (playersC st)\<rparr>
           in (ok 200 (PlayerData (findById (playersC st1) i)), st1)))"

definition put_player :: "acting option \<Rightarrow> param \<Rightarrow> player update_body \<Rightarrow> store \<Rightarrow> response \<times> store" where
  "put_player u pid b st =
     gated [Admin, Coach] u st (\<lambda>a.
       case pid of
         Uncastable \<Rightarrow> (server_error, st)
       | Oid i \<Rightarrow>
           (case findById (playersC st) i of
              None \<Rightarrow> (failure 404 ''Player not found'', st)
            | Some p \<Rightarrow>
                if a_role a = Coach then
                  (case populate_team st p of
                     None \<Rightarrow> (server_error, st)
                   | Some (tid, t) \<Rightarrow>
                       if coach t \<noteq> a_id a
                       then (failure 403 ''Not authorized to update this player'', st)
                       else update_player i b st)
                else update_player i b st))"

definition delete_player :: "acting option \<Rightarrow> param \<Rightarrow> store \<Rightarrow> response \<times> store" where
  "delete_player u pid st =
     gated [Admin, Coach] u st (\<lambda>a.
       case pid of
         Uncastable \<Rightarrow> (server_error, st)
       | Oid i \<Rightarrow>
           (case findById (playersC st) i of
              None \<Rightarrow> (failure 404 ''Player not found'', st)
            | Some p \<Rightarrow>
                (case populate_team st p of
                   None \<Rightarrow> (server_error, st)
                 | Some (tid, t) \<Rightarrow>
                     if a_role a = Coach \<and> coach t \<noteq> a_id a
                     then (failure 403 ''Not authorized to delete this player'', st)
                     else
                       (let st1 = st\<lparr>teams := findByIdAndUpdate tid (\<lambda>d. d\<lparr>players := pull i (players d)\<rparr>) (teams st)\<rparr>;
                            st2 = st1\<lparr>users := findByIdAndUpdate (p_user p)
                                     (\<lambda>d. d\<lparr>u_team := None, playerProfile := None\<rparr>) (users st1)\<rparr>;
                            st3 = st2\<lparr>playersC := findByIdAndDelete i (playersC st2)\<rparr>
                        in (ok 200 (Message ''Player deleted successfully''), st3)))))"

subsection \<open>routes/games.js\<close>

text \<open>
  The game routes run \<open>protect\<close> and \<open>authorize('admin', 'coach')\<close> and then go straight
  to the store: the handlers never read \<open>req.user\<close>.
\<close>

definition put_game :: "acting option \<Rightarrow> param \<Rightarrow> game update_body \<Rightarrow> store \<Rightarrow> response \<times> store" where
  "put_game u pid b st =
     gated [Admin, Coach] u st (\<lambda>a.
       case pid of
         Uncastable \<Rightarrow> (server_error, st)
       | Oid i \<Rightarrow>
           (case b of
              Rejected \<Rightarrow> (server_error, st)
            | Update f \<Rightarrow>
                (let st1 = st\<lparr>games := findByIdAndUpdate i f (games st)\<rparr> in
                 case findById (games st1) i of
                   None \<Rightarrow> (failure 404 ''Game not found'', st1)
                 | Some g \<Rightarrow> (ok 200 (GameData g), st1))))"

text \<open>
  \<open>body(...).isInt({ min: 0 })\<close> on a JSON number with an integer value: express-validator
  hands \<open>String(value)\<close> to validator.js, which wants a plain decimal integer and then
  checks \<open>min\<close>. \<open>String\<close> of a Number from \<open>10^21\<close> on is in exponent form
  (\<open>"1e+21"\<close>) and fails, as a negative one fails \<open>min\<close>.
\<close>

definition isInt_min0 :: "int \<Rightarrow> bool" where
  "isInt_min0 v = (0 \<le> v \<and> v < 1000000000000000000000)"

definition score_validation :: "int \<Rightarrow> int \<Rightarrow> string list" where
  "score_validation h a =
     (if isInt_min0 h then [] else [''Home score must be non-negative'']) @
     (if isInt_min0 a then [] else [''Away score must be non-negative''])"

text \<open>
  \<open>findByIdAndUpdate(id, {homeScore, awayScore}, {new: true, runValidators: true})\<close>
  returns the document as the store holds it after the write; the schema's \<open>min: 0\<close> was
  checked by the route. \<open>io.to(game._id.toString()).emit("gameUpdated", game)\<close>
  addresses the room of the main namespace.
\<close>

definition put_game_score :: "acting option \<Rightarrow> param \<Rightarrow> int \<Rightarrow> int \<Rightarrow> server \<Rightarrow> response \<times> server" where
  "put_game_score u pid h a srv =
     gated [Admin, Coach] u srv (\<lambda>actor.
       if score_validation h a \<noteq> [] then (validation_errors (score_validation h a), srv)
       else (case pid of
         Uncastable \<Rightarrow> (server_error, srv)
       | Oid i \<Rightarrow>
           (let st1 = (db srv)\<lparr>games := findByIdAndUpdate i (\<lambda>d. d\<lparr>homeScore := h, awayScore := a\<rparr>)
                                          (games (db srv))\<rparr> in
            case findById (games st1) i of
              None \<Rightarrow> (failure 404 ''Game not found'', srv\<lparr>db := st1\<rparr>)
            | Some g \<Rightarrow>
                (ok 200 (GameData g),
                 broadcast_to main_nsp i (GameUpdated_doc i g) (srv\<lparr>db := st1\<rparr>)))))"

definition delete_game :: "acting option \<Rightarrow> param \<Rightarrow> store \<Rightarrow> response \<times> store" where
  "delete_game u pid st =
     gated [Admin, Coach] u st (\<lambda>a.
       case pid of
         Uncastable \<Rightarrow> (server_error, st)
       | Oid i \<Rightarrow>
           (case findById (games st) i of
              None \<Rightarrow> (failure 404 ''Game not found'', st)
            | Some g \<Rightarrow>
                (ok 200 (Message ''Game deleted successfully''),
                 st\<lparr>games := findByIdAndDelete i (games st)\<rparr>)))"

section \<open>The server as shipped, and with the handshake served\<close>

text \<open>
  The states the running server can be in: it starts without connections; a handshake on a
  fresh socket id is answered by \<open>connect\<close>; a client event runs its listener; the score
  route writes and emits; every other route changes the store only.
\<close>

inductive reachable :: "(string \<Rightarrow> oid option) \<Rightarrow> server \<Rightarrow> bool" for v where
  start: "reachable v \<lparr>db = st, io = Map.empty, emitted = []\<rparr>"
| handshake: "reachable v srv \<Longrightarrow> io srv k = None \<Longrightarrow>
     connect v (db srv) n k token (io srv) = Inr gw \<Longrightarrow> reachable v (srv\<lparr>io := gw\<rparr>)"
| event: "reachable v srv \<Longrightarrow> handle_event srv k ev = Inr srv' \<Longrightarrow> reachable v srv'"
| score: "reachable v srv \<Longrightarrow> put_game_score u pid h w srv = (r, srv') \<Longrightarrow> reachable v srv'"
| rest: "reachable v srv \<Longrightarrow> reachable v (srv\<lparr>db := st\<rparr>)"

text \<open>
  The same steps for a server that listens on the http server Socket.IO is attached to
  (\<open>server.listen\<close> in the place of \<open>app.listen\<close>), so that a handshake reaches
  \<open>namespace_handshake\<close>: what the gateway's own code does once it is reached.
\<close>

inductive served :: "(string \<Rightarrow> oid option) \<Rightarrow> server \<Rightarrow> bool" for v where
  s_start: "served v \<lparr>db = st, io = Map.empty, emitted = []\<rparr>"
| s_handshake: "served v srv \<Longrightarrow> io srv k = None \<Longrightarrow>
     namespace_handshake v (db srv) n k token (io srv) = Inr gw \<Longrightarrow> served v (srv\<lparr>io := gw\<rparr>)"
| s_event: "served v srv \<Longrightarrow> handle_event srv k ev = Inr srv' \<Longrightarrow> served v srv'"
| s_score: "served v srv \<Longrightarrow> put_game_score u pid h w srv = (r, srv') \<Longrightarrow> served v srv'"
| s_rest: "served v srv \<Longrightarrow> served v (srv\<lparr>db := st\<rparr>)"

text \<open>
  What the namespaces make of every socket of a served handshake: one of \<open>/api/game\<close> has
  no user, one of \<open>/\<close> is in no room but its own.
\<close>

definition wired_socket :: "sid \<Rightarrow> socket \<Rightarrow> bool" where
  "wired_socket k s =
     ((s_nsp s = game_nsp \<and> s_user s = None) \<or> (s_nsp s = main_nsp \<and> rooms s = {k}))"

definition wired :: "gateway \<Rightarrow> bool" where
  "wired gw = (\<forall>k s. gw k = Some s \<longrightarrow> wired_socket k s)"

section \<open>Example states\<close>

text \<open>
  One coach (Cleo) owns both teams; a second coach (Dana) owns none. Ann plays for the
  Hawks with jersey 23; Bea has an account with the player role and no profile yet.
\<close>

definition uid_coach1 :: oid where "uid_coach1 = ''c00000000000000000000001''"
definition uid_coach2 :: oid where "uid_coach2 = ''c00000000000000000000002''"
definition uid_admin :: oid where "uid_admin = ''a00000000000000000000001''"
definition uid_fan1 :: oid where "uid_fan1 = ''f00000000000000000000001''"
definition uid_fan2 :: oid where "uid_fan2 = ''f00000000000000000000002''"
definition tid_1 :: oid where "tid_1 = ''e00000000000000000000001''"
definition tid_2 :: oid where "tid_2 = ''e00000000000000000000002''"
definition pid_1 :: oid where "pid_1 = ''b00000000000000000000001''"
definition gid_1 :: oid where "gid_1 = ''d00000000000000000000001''"

definition mk_user :: "string \<Rightarrow> role \<Rightarrow> oid list \<Rightarrow> oid option \<Rightarrow> oid option \<Rightarrow> user" where
  "mk_user n r ms t p =
     \<lparr>u_name = n, u_email = n @ ''@example.org'', u_role = r, managedTeams = ms, u_team = t,
      playerProfile = p\<rparr>"

definition mk_team :: "string \<Rightarrow> oid \<Rightarrow> oid list \<Rightarrow> team" where
  "mk_team n c ps =
     \<lparr>t_name = n, coach = c, description = None, foundedYear = None, homeVenue = None,
      colors_primary = ''#000000'', colors_secondary = ''#FFFFFF'', logo = None,
      t_isActive = True, players = ps, stats = \<lparr>wins = 0, losses = 0, winPercentage = 0\<rparr>,
      t_createdAt = 0\<rparr>"

definition team_3_1 :: team where
  "team_3_1 = (mk_team ''Hawks'' uid_coach1 [])\<lparr>stats := \<lparr>wins = 3, losses = 1, winPercentage = 0\<rparr>\<rparr>"

definition player1 :: player where
  "player1 =
     \<lparr>p_name = ''Ann'', p_user = uid_fan1, p_team = Some tid_1, position = ''PG'',
      jerseyNumber = 23, height = ''6-1'', weight = 180, age = 24,
      p_stats = \<lparr>pointsPerGame = 0, reboundsPerGame = 0, assistsPerGame = 0,
                 stealsPerGame = 0, blocksPerGame = 0\<rparr>,
      p_isActive = True, p_createdAt = 0\<rparr>"

definition game1 :: game where
  "game1 =
     \<lparr>homeTeam = tid_1, awayTeam = tid_2, homeScore = 0, awayScore = 0, gameDate = 100,
      g_status = Scheduled, quarter = 1, timeRemaining = ''12:00'', venue = None,
      attendance = None, gameStats = [], g_createdAt = 0\<rparr>"

definition db0 :: store where
  "db0 =
     \<lparr>users = [(uid_coach1, mk_user ''Cleo'' Coach [tid_1, tid_2] None None),
               (uid_coach2, mk_user ''Dana'' Coach [] None None),
               (uid_admin, mk_user ''Root'' Admin [] None None),
               (uid_fan1, mk_user ''Ann'' Player [] (Some tid_1) (Some pid_1)),
               (uid_fan2, mk_user ''Bea'' Player [] None None)],
      teams = [(tid_1, mk_team ''Hawks'' uid_coach1 [pid_1]),
               (tid_2, mk_team ''Bulls'' uid_coach1 [])],
      playersC = [(pid_1, player1)],
      games = [(gid_1, game1)]\<rparr>"

definition act_coach1 :: acting where "act_coach1 = \<lparr>a_id = uid_coach1, a_role = Coach\<rparr>"
definition act_coach2 :: acting where "act_coach2 = \<lparr>a_id = uid_coach2, a_role = Coach\<rparr>"
definition act_admin :: acting where "act_admin = \<lparr>a_id = uid_admin, a_role = Admin\<rparr>"

definition body_bea :: player_body where
  "body_bea =
     \<lparr>b_name = ''Bea'', b_user = uid_fan2, b_team = tid_1, b_position = ''SG'',
      b_jerseyNumber = 23, b_height = ''6-0'', b_weight = 170, b_age = 22\<rparr>"

definition body_ann :: player_body where
  "body_ann = body_bea\<lparr>b_name := ''Ann'', b_user := uid_fan1\<rparr>"

definition body_ghost :: player_body where
  "body_ghost = body_bea\<lparr>b_user := ''000000000000000000000000''\<rparr>"

definition env0 :: env where
  "env0 = \<lparr>new_id = ''b00000000000000000000002'', now = 7\<rparr>"

definition rename_team :: "team update_body" where
  "rename_team = Update (\<lambda>t. t\<lparr>t_name := ''Owls''\<rparr>)"

definition bench_player :: "player update_body" where
  "bench_player = Update (\<lambda>p. p\<lparr>p_isActive := False\<rparr>)"

definition jwt0 :: "string \<Rightarrow> oid option" where
  "jwt0 tk =
     (if tk = ''token-admin'' then Some uid_admin
      else if tk = ''token-coach1'' then Some uid_coach1
      else if tk = ''token-ghost'' then Some ''000000000000000000000000''
      else None)"

text \<open>A socket state of \<open>/api/game\<close>: a viewer without a user, in the room of \<open>gid_1\<close>.\<close>

definition viewer_joined :: socket where
  "viewer_joined = \<lparr>s_nsp = game_nsp, s_user = None, rooms = {gid_1, ''s1''}, inbox = []\<rparr>"

definition srv1 :: server where
  "srv1 = \<lparr>db = db0, io = [''s1'' \<mapsto> viewer_joined], emitted = []\<rparr>"

text \<open>
  The server as it runs, with no socket; and the sockets a served handshake of coach Cleo
  (token \<open>token-coach1\<close>) would give on the two namespaces.
\<close>

definition srv_idle :: server where
  "srv_idle = \<lparr>db = db0, io = Map.empty, emitted = []\<rparr>"




definition push1 :: update_data where
  "push1 =
     \<lparr>gameId = gid_1, ud_homeScore = Some 3, ud_awayScore = None, ud_status = None,
      ud_other = []\<rparr>"

lemmas ids = uid_coach1_def uid_coach2_def uid_admin_def uid_fan1_def uid_fan2_def
  tid_1_def tid_2_def pid_1_def gid_1_def

lemmas acts = act_coach1_def act_coach2_def act_admin_def

lemmas data = db0_def mk_user_def mk_team_def player1_def game1_def ids acts

lemmas resp = failure_def ok_def server_error_def validation_errors_def

section \<open>Collections: lookups after a write\<close>

lemma findById_update:
  "findById (findByIdAndUpdate i f c) j =
     (if j = i then map_option f (findById c i) else findById c j)"
  by (induction c) (auto simp: findById_def)

lemma findById_delete:
  "findById (findByIdAndDelete i c) j = (if j = i then None else findById c j)"
  by (induction c) (auto simp: findById_def findByIdAndDelete_def)

lemma update_absent: "findById c i = None \<Longrightarrow> findByIdAndUpdate i f c = c"
  by (induction c) (auto simp: findById_def split: if_splits)

lemma update_keys: "map fst (findByIdAndUpdate i f c) = map fst c"
  by (induction c) auto

lemma findOne_Some_iff: "(findOne c P \<noteq> None) = (\<exists>(k, d) \<in> set c. P d)"
  by (auto simp: findOne_def find_None_iff)

section \<open>The gateway\<close>

lemma emit_to_member:
  "gw k = Some s \<Longrightarrow> s_nsp s = n \<Longrightarrow> r \<in> rooms s \<Longrightarrow>
   emit_to n r ev gw k = Some (s\<lparr>inbox := inbox s @ [ev]\<rparr>)"
  by (simp add: emit_to_def)

lemma emit_to_other:
  "gw k = Some s \<Longrightarrow> s_nsp s \<noteq> n \<or> r \<notin> rooms s \<Longrightarrow> emit_to n r ev gw k = Some s"
  by (auto simp: emit_to_def)

lemma emit_to_absent: "gw k = None \<Longrightarrow> emit_to n r ev gw k = None"
  by (simp add: emit_to_def)

lemma emit_to_empty: "emit_to n r ev Map.empty = Map.empty"
  by (rule ext) (simp add: emit_to_def)

subsection \<open>The server as shipped: no socket\<close>

lemma srv_idle_reachable: "reachable v srv_idle"
  by (simp add: srv_idle_def reachable.start)

lemma connect_refused: "connect v st n k token gw = Inl Not_served"
  by (simp add: connect_def attached_server_def listening_server_def)


lemma score_route_without_sockets:
  "io srv = Map.empty \<Longrightarrow> io (snd (put_game_score u pid h w srv)) = Map.empty"
  by (auto simp: put_game_score_def gated_def Let_def broadcast_to_def emit_to_empty
           split: option.splits param.splits)

lemma reachable_no_sockets: "reachable v srv \<Longrightarrow> io srv = Map.empty"
proof (induction rule: reachable.induct)
  case (start st)
  then show ?case by simp
next
  case (handshake srv k n token gw)
  then show ?case by (simp add: connect_refused)
next
  case (event srv k ev srv')
  then show ?case by (simp add: handle_event_def)
next
  case (score srv u pid h w r srv')
  from score_route_without_sockets [OF score.IH, of u pid h w] score.hyps(2)
  show ?case by simp
next
  case (rest srv st)
  then show ?case by simp
qed

subsection \<open>With the handshake served: the namespaces\<close>

lemma nsp_differ: "game_nsp \<noteq> main_nsp"
  by (simp add: game_nsp_def main_nsp_def)

lemma wiredD: "wired gw \<Longrightarrow> gw k = Some s \<Longrightarrow> wired_socket k s"
  by (simp add: wired_def)

lemma wired_update: "wired gw \<Longrightarrow> wired_socket k s \<Longrightarrow> wired (gw(k \<mapsto> s))"
  by (simp add: wired_def)

lemma wired_remove: "wired gw \<Longrightarrow> wired (gw(k := None))"
  by (simp add: wired_def)

lemma wired_socket_inbox: "wired_socket k (s\<lparr>inbox := x\<rparr>) = wired_socket k s"
  by (simp add: wired_socket_def)

lemma wired_emit: "wired gw \<Longrightarrow> wired (emit_to n r ev gw)"
  unfolding wired_def emit_to_def
  by (auto simp: wired_socket_inbox split: option.splits if_splits)

lemma wired_handshake:
  assumes "wired gw" and "namespace_handshake v st n k token gw = Inr gw'"
  shows "wired gw'"
proof -
  from assms(2) obtain s where "gw' = gw(k \<mapsto> s)" and "wired_socket k s"
    by (auto simp: namespace_handshake_def new_socket_def wired_socket_def
             split: if_splits sum.splits)
  with assms(1) show ?thesis by (simp add: wired_update)
qed

lemma wired_event:
  assumes "wired (io srv)" and "handle_event srv k ev = Inr srv'"
  shows "wired (io srv')"
proof (cases "io srv k")
  case None
  with assms show ?thesis by (simp add: handle_event_def)
next
  case (Some s)
  note w = wiredD [OF assms(1) Some]
  show ?thesis
  proof (cases ev)
    case (JoinGame g)
    show ?thesis
    proof (cases "s_nsp s = game_nsp")
      case True
      with w nsp_differ have "wired_socket k (on_joinGame s g)"
        by (auto simp: wired_socket_def on_joinGame_def)
      with assms Some JoinGame True show ?thesis
        by (auto simp: handle_event_def wired_update)
    next
      case False
      with assms Some JoinGame show ?thesis by (simp add: handle_event_def)
    qed
  next
    case (UpdateGame d)
    with assms Some show ?thesis
      by (auto simp: handle_event_def on_updateGame_def broadcast_to_def wired_emit
               split: if_splits option.splits)
  next
    case Disconnect
    with assms Some show ?thesis by (auto simp: handle_event_def wired_remove)
  qed
qed

lemma wired_score:
  "wired (io srv) \<Longrightarrow> put_game_score u pid h w srv = (r, srv') \<Longrightarrow> wired (io srv')"
  by (auto simp: put_game_score_def gated_def Let_def broadcast_to_def wired_emit
           split: option.splits if_splits param.splits)

lemma served_wired: "served v srv \<Longrightarrow> wired (io srv)"
proof (induction rule: served.induct)
  case (s_start st)
  then show ?case by (simp add: wired_def)
next
  case (s_handshake srv k n token gw)
  then show ?case using wired_handshake by fastforce
next
  case (s_event srv k ev srv')
  then show ?case using wired_event by blast
next
  case (s_score srv u pid h w r srv')
  then show ?case using wired_score by blast
next
  case (s_rest srv st)
  then show ?case by simp
qed

text \<open>
  Even with the handshake served, a socket that carries a user sits on \<open>/\<close>, where no
  listener is registered: its \<open>joinGame\<close> puts it into no room, and no socket at all passes
  the guard of \<open>updateGame\<close>.
\<close>

lemma served_authenticated_no_join:
  assumes "served v srv" and "io srv k = Some s" and "s_user s = Some u"
  shows "handle_event srv k (JoinGame g) = Inr srv"
proof -
  from wiredD [OF served_wired [OF assms(1)] assms(2)] assms(3)
  have "s_nsp s = main_nsp" by (auto simp: wired_socket_def)
  with assms(2) nsp_differ show ?thesis by (auto simp: handle_event_def)
qed

lemma served_pushes_dropped:
  assumes "served v srv"
  shows "handle_event srv k (UpdateGame d) = Inr srv"
proof (cases "io srv k")
  case None
  then show ?thesis by (simp add: handle_event_def)
next
  case (Some s)
  from wiredD [OF served_wired [OF assms] Some]
  have "(s_nsp s = game_nsp \<and> s_user s = None) \<or> s_nsp s = main_nsp"
    by (auto simp: wired_socket_def)
  then show ?thesis
    using Some nsp_differ
    by (auto simp: handle_event_def on_updateGame_def may_push_def)
qed

text \<open>
  The emit of the score route passes by every socket of \<open>/api/game\<close>, in any state; with
  the handshake served it can reach only a socket of \<open>/\<close> whose own id is the game's id.
\<close>

lemma score_update_skips_game_namespace:
  assumes "io srv k = Some s" and "s_nsp s = game_nsp"
  shows "io (snd (put_game_score u pid h w srv)) k = Some s"
  using assms nsp_differ
  by (auto simp: put_game_score_def gated_def Let_def broadcast_to_def emit_to_def
           split: option.splits param.splits)

lemma served_score_receivers:
  assumes "served v srv" and "io srv k = Some s"
    and "io (snd (put_game_score u (Oid i) h w srv)) k \<noteq> Some s"
  shows "s_nsp s = main_nsp \<and> k = i"
proof -
  from wiredD [OF served_wired [OF assms(1)] assms(2)]
  have w: "(s_nsp s = game_nsp \<and> s_user s = None) \<or> (s_nsp s = main_nsp \<and> rooms s = {k})"
    by (simp add: wired_socket_def)
  show ?thesis
    using assms(2,3) w nsp_differ
    by (auto simp: put_game_score_def gated_def Let_def broadcast_to_def emit_to_def
           split: option.splits param.splits if_splits)
qed

subsection \<open>The handshake\<close>


lemma protectSocket_bad_token:
  "tk \<noteq> [] \<Longrightarrow> v tk = None \<Longrightarrow> protectSocket v st (Some tk) = Inl Unauthorized"
  by (simp add: protectSocket_def)

lemma protectSocket_no_user:
  "tk \<noteq> [] \<Longrightarrow> v tk = Some uid \<Longrightarrow> findById (users st) uid = None \<Longrightarrow>
   protectSocket v st (Some tk) = Inl User_not_found"
  by (simp add: protectSocket_def)



text \<open>
  A handshake that reached Socket.IO would be decided by the gate on the main namespace,
  and would succeed without a user on \<open>/api/game\<close>, whatever the token.
\<close>

lemma main_namespace_gated:
  "namespace_handshake v st main_nsp k token gw = Inr gw' \<Longrightarrow>
   \<exists>su. protectSocket v st token = Inr su \<and> gw' = gw(k \<mapsto> new_socket main_nsp k (Some su))"
  by (auto simp: namespace_handshake_def split: sum.splits)

lemma main_namespace_rejects:
  "protectSocket v st token = Inl e \<Longrightarrow> namespace_handshake v st main_nsp k token gw = Inl e"
  by (simp add: namespace_handshake_def)


lemma main_namespace_no_listeners:
  "io srv k = Some s \<Longrightarrow> s_nsp s = main_nsp \<Longrightarrow> ev \<noteq> Disconnect \<Longrightarrow>
   handle_event srv k ev = Inr srv"
  by (cases ev) (simp_all add: handle_event_def main_nsp_def game_nsp_def)

lemma jwt0_admin: "jwt0 ''token-admin'' = Some uid_admin"
  by (simp add: jwt0_def)


lemma db0_admin: "findById (users db0) uid_admin = Some (mk_user ''Root'' Admin [] None None)"
  by (simp add: findById_def db0_def ids)


lemma gate_examples:
  "protectSocket jwt0 db0 None = Inl No_token_provided"
  "protectSocket jwt0 db0 (Some ''forged'') = Inl Unauthorized"
  "protectSocket jwt0 db0 (Some ''token-ghost'') = Inl User_not_found"
  "protectSocket jwt0 db0 (Some ''token-admin'')
     = Inr \<lparr>su_id = uid_admin, su_role = Admin, su_name = ''Root''\<rparr>"
  by (simp_all add: protectSocket_def jwt0_def findById_def data)




subsection \<open>joinGame\<close>

text \<open>The handler itself: \<open>socket.join(gameId)\<close>, whatever the socket and the room.\<close>

lemma on_joinGame_joins: "g \<in> rooms (on_joinGame s g) \<and> s_user (on_joinGame s g) = s_user s"
  by (simp add: on_joinGame_def)


subsection \<open>updateGame\<close>

text \<open>A missing payload makes the guarded body throw.\<close>

lemma updateGame_without_payload:
  "may_push s \<Longrightarrow> on_updateGame srv s None = Inl TypeError"
  by (simp add: on_updateGame_def)

text \<open>
  The guarded body: one \<open>gameUpdated\<close> with the payload as it came, addressed with
  \<open>io.to\<close>; the store is not touched and the user's id is not read.
\<close>

lemma on_updateGame_body:
  "may_push s \<Longrightarrow>
   on_updateGame srv s (Some d) = Inr (broadcast_to main_nsp (gameId d) (GameUpdated_raw d) srv)
   \<and> db (broadcast_to main_nsp (gameId d) (GameUpdated_raw d) srv) = db srv"
  by (simp add: on_updateGame_def broadcast_to_def)


text \<open>
  C10: an \<open>updateGame\<close> event, with any payload or none, from a socket that has no
  attached user or whose user is neither admin nor coach leaves the whole server as it is:
  no inbox gains a \<open>gameUpdated\<close> or an \<open>errorMessage\<close>, and the store is unchanged.
\<close>

theorem updateGame_dropped:
  assumes "io srv k = Some s"
    and "s_user s = None \<or> (\<exists>u. s_user s = Some u \<and> su_role u \<noteq> Admin \<and> su_role u \<noteq> Coach)"
  shows "handle_event srv k (UpdateGame d) = Inr srv"
  using assms by (auto simp: handle_event_def on_updateGame_def may_push_def)

theorem updateGame_dropped_witness:
  "io srv1 ''s1'' = Some viewer_joined \<and> s_user viewer_joined = None
   \<and> handle_event srv1 ''s1'' (UpdateGame (Some push1)) = Inr srv1"
proof -
  have a: "io srv1 ''s1'' = Some viewer_joined" by (simp add: srv1_def)
  have b: "s_user viewer_joined = None" by (simp add: viewer_joined_def)
  from updateGame_dropped [OF a, of "Some push1"] a b show ?thesis by blast
qed

section \<open>The pre-save hook\<close>

text \<open>
  C6: after the hook the win percentage is \<open>wins / (wins + losses)\<close> when the sum is
  positive and \<open>0\<close> when both counters are zero; the counters themselves are kept.
\<close>

theorem pre_save_winPercentage:
  "(wins (stats t) + losses (stats t) > 0 \<longrightarrow>
      winPercentage (stats (pre_save t)) = wins (stats t) / (wins (stats t) + losses (stats t)))
   \<and> (wins (stats t) = 0 \<and> losses (stats t) = 0 \<longrightarrow> winPercentage (stats (pre_save t)) = 0)
   \<and> wins (stats (pre_save t)) = wins (stats t) \<and> losses (stats (pre_save t)) = losses (stats t)"
  by (simp add: pre_save_def Let_def)

theorem pre_save_winPercentage_witness:
  "wins (stats team_3_1) + losses (stats team_3_1) > 0
   \<and> winPercentage (stats (pre_save team_3_1)) = 3 / 4
   \<and> wins (stats (mk_team ''Bulls'' uid_coach1 [])) = 0
   \<and> losses (stats (mk_team ''Bulls'' uid_coach1 [])) = 0
   \<and> winPercentage (stats (pre_save (mk_team ''Bulls'' uid_coach1 []))) = 0"
proof -
  have a: "wins (stats team_3_1) = 3" "losses (stats team_3_1) = 1"
    by (simp_all add: team_3_1_def)
  have b: "wins (stats (mk_team ''Bulls'' uid_coach1 [])) = 0"
    "losses (stats (mk_team ''Bulls'' uid_coach1 [])) = 0"
    by (simp_all add: mk_team_def)
  from pre_save_winPercentage [of team_3_1]
    pre_save_winPercentage [of "mk_team ''Bulls'' uid_coach1 []"] a b
  show ?thesis by simp
qed

section \<open>The score route\<close>

lemma isInt_min0_57_61: "isInt_min0 57" "isInt_min0 61"
  by (simp_all add: isInt_min0_def)

text \<open>
  What the route does for an existing game, a coach or admin and scores the validator
  accepts: it writes the two scores, answers 200 with the document read back from the
  store, and emits one \<open>gameUpdated\<close> with that document to the room of the main namespace
  named by the game's id.
\<close>

lemma put_game_score_ok:
  assumes "findById (games (db srv)) i = Some g" and "a_role a = Admin \<or> a_role a = Coach"
    and "isInt_min0 h" and "isInt_min0 w"
  shows "put_game_score (Some a) (Oid i) h w srv =
           (ok 200 (GameData (g\<lparr>homeScore := h, awayScore := w\<rparr>)),
            broadcast_to main_nsp i (GameUpdated_doc i (g\<lparr>homeScore := h, awayScore := w\<rparr>))
              (srv\<lparr>db := (db srv)\<lparr>games := findByIdAndUpdate i
                                   (\<lambda>d. d\<lparr>homeScore := h, awayScore := w\<rparr>) (games (db srv))\<rparr>\<rparr>))"
  using assms
  by (auto simp: put_game_score_def gated_def score_validation_def Let_def findById_update)

lemma put_game_score_missing:
  assumes "findById (games (db srv)) i = None" and "a_role a = Admin \<or> a_role a = Coach"
    and "isInt_min0 h" and "isInt_min0 w"
  shows "put_game_score (Some a) (Oid i) h w srv = (failure 404 ''Game not found'', srv)"
  using assms
  by (auto simp: put_game_score_def gated_def score_validation_def Let_def findById_update
        update_absent)


lemma srv1_game1: "findById (games (db srv1)) gid_1 = Some game1"
  by (simp add: srv1_def db0_def findById_def)





text \<open>
  C9: a score update answered with 200 rewrote the target game to the same document with
  the two scores replaced: every other field of it, every other game, the order of the
  collection and the users, teams and players are as before.
\<close>

theorem put_game_score_frame:
  assumes "put_game_score u pid h w srv = (r, srv')" and "status r = 200"
  shows "\<exists>i g g'. pid = Oid i \<and> findById (games (db srv)) i = Some g
           \<and> findById (games (db srv')) i = Some g'
           \<and> g' = g\<lparr>homeScore := h, awayScore := w\<rparr>
           \<and> homeTeam g' = homeTeam g \<and> awayTeam g' = awayTeam g \<and> gameDate g' = gameDate g
           \<and> g_status g' = g_status g \<and> quarter g' = quarter g
           \<and> timeRemaining g' = timeRemaining g \<and> venue g' = venue g
           \<and> attendance g' = attendance g \<and> gameStats g' = gameStats g
           \<and> g_createdAt g' = g_createdAt g
           \<and> (\<forall>j. j \<noteq> i \<longrightarrow> findById (games (db srv')) j = findById (games (db srv)) j)
           \<and> map fst (games (db srv')) = map fst (games (db srv))
           \<and> users (db srv') = users (db srv) \<and> teams (db srv') = teams (db srv)
           \<and> playersC (db srv') = playersC (db srv)"
  using assms
  by (auto simp: put_game_score_def gated_def resp Let_def broadcast_to_def findById_update
                 update_keys
           split: option.splits param.splits if_splits)

theorem put_game_score_frame_witness:
  "status (fst (put_game_score (Some act_coach1) (Oid gid_1) 57 61 srv1)) = 200
   \<and> (\<exists>i g g'. Oid gid_1 = Oid i \<and> findById (games (db srv1)) i = Some g
           \<and> findById (games (db (snd (put_game_score (Some act_coach1) (Oid gid_1) 57 61 srv1)))) i = Some g'
           \<and> g' = g\<lparr>homeScore := 57, awayScore := 61\<rparr>
           \<and> homeTeam g' = homeTeam g \<and> awayTeam g' = awayTeam g \<and> gameDate g' = gameDate g
           \<and> g_status g' = g_status g \<and> quarter g' = quarter g
           \<and> timeRemaining g' = timeRemaining g \<and> venue g' = venue g
           \<and> attendance g' = attendance g \<and> gameStats g' = gameStats g
           \<and> g_createdAt g' = g_createdAt g
           \<and> map fst (games (db (snd (put_game_score (Some act_coach1) (Oid gid_1) 57 61 srv1))))
                = map fst (games (db srv1))
           \<and> users (db (snd (put_game_score (Some act_coach1) (Oid gid_1) 57 61 srv1))) = users (db srv1)
           \<and> teams (db (snd (put_game_score (Some act_coach1) (Oid gid_1) 57 61 srv1))) = teams (db srv1)
           \<and> playersC (db (snd (put_game_score (Some act_coach1) (Oid gid_1) 57 61 srv1)))
                = playersC (db srv1))"
proof -
  have a: "a_role act_coach1 = Admin \<or> a_role act_coach1 = Coach" by (simp add: act_coach1_def)
  have s: "status (fst (put_game_score (Some act_coach1) (Oid gid_1) 57 61 srv1)) = 200"
    using put_game_score_ok [OF srv1_game1 a isInt_min0_57_61] by (simp add: ok_def)
  have e: "put_game_score (Some act_coach1) (Oid gid_1) 57 61 srv1
             = (fst (put_game_score (Some act_coach1) (Oid gid_1) 57 61 srv1),
                snd (put_game_score (Some act_coach1) (Oid gid_1) 57 61 srv1))"
    by simp
  from put_game_score_frame [OF e s] s show ?thesis by blast
qed

section \<open>Deleting a player\<close>

text \<open>The route succeeds for an admin, and for the coach of the player's team.\<close>

lemma delete_player_succeeds:
  assumes "findById (playersC st) i = Some p" and "p_team p = Some tid"
    and "findById (teams st) tid = Some t"
    and "a_role a = Admin \<or> (a_role a = Coach \<and> coach t = a_id a)"
  shows "status (fst (delete_player (Some a) (Oid i) st)) = 200"
  using assms by (auto simp: delete_player_def gated_def populate_team_def ok_def Let_def)

text \<open>
  C7: a delete answered with 200 was a delete of an existing player \<open>p\<close> whose team \<open>t\<close>
  exists, and afterwards all three hold: the team's list is the old one without the
  player's id, the user \<open>p\<close> points to (when there is one) has neither \<open>team\<close> nor
  \<open>playerProfile\<close>, and the player's document is gone.
\<close>

theorem delete_player_cascade:
  assumes "delete_player u pid st = (r, st')" and "status r = 200"
  shows "\<exists>i p tid t. pid = Oid i \<and> findById (playersC st) i = Some p \<and> p_team p = Some tid
           \<and> findById (teams st) tid = Some t
           \<and> findById (teams st') tid = Some (t\<lparr>players := removeAll i (players t)\<rparr>)
           \<and> i \<notin> set (removeAll i (players t))
           \<and> findById (users st') (p_user p)
                = map_option (\<lambda>d. d\<lparr>u_team := None, playerProfile := None\<rparr>)
                    (findById (users st) (p_user p))
           \<and> findById (playersC st') i = None"
  using assms
  by (auto simp: delete_player_def gated_def populate_team_def resp Let_def pull_def
                 findById_update findById_delete
           split: option.splits param.splits if_splits)

theorem delete_player_cascade_witness:
  "status (fst (delete_player (Some act_coach1) (Oid pid_1) db0)) = 200
   \<and> (\<exists>i p tid t. Oid pid_1 = Oid i \<and> findById (playersC db0) i = Some p \<and> p_team p = Some tid
           \<and> findById (teams db0) tid = Some t
           \<and> findById (teams (snd (delete_player (Some act_coach1) (Oid pid_1) db0))) tid
                = Some (t\<lparr>players := removeAll i (players t)\<rparr>)
           \<and> i \<notin> set (removeAll i (players t))
           \<and> findById (users (snd (delete_player (Some act_coach1) (Oid pid_1) db0))) (p_user p)
                = map_option (\<lambda>d. d\<lparr>u_team := None, playerProfile := None\<rparr>)
                    (findById (users db0) (p_user p))
           \<and> findById (playersC (snd (delete_player (Some act_coach1) (Oid pid_1) db0))) i = None)"
proof -
  have s: "status (fst (delete_player (Some act_coach1) (Oid pid_1) db0)) = 200"
    by (simp add: delete_player_def gated_def populate_team_def findById_def ok_def data)
  have e: "delete_player (Some act_coach1) (Oid pid_1) db0
             = (fst (delete_player (Some act_coach1) (Oid pid_1) db0),
                snd (delete_player (Some act_coach1) (Oid pid_1) db0))"
    by simp
  from delete_player_cascade [OF e s] s show ?thesis by blast
qed

section \<open>Creating a player\<close>

lemma mk_user_role: "u_role (mk_user n r ms t p) = r"
  by (simp add: mk_user_def)

lemma mk_team_coach: "coach (mk_team n c ps) = c"
  by (simp add: mk_team_def)

lemma act_roles:
  "a_role act_coach1 = Coach" "a_role act_coach2 = Coach" "a_role act_admin = Admin"
  by (simp_all add: acts)

lemma act_ids:
  "a_id act_coach1 = uid_coach1" "a_id act_coach2 = uid_coach2" "a_id act_admin = uid_admin"
  by (simp_all add: acts)

lemma coaches_differ: "uid_coach1 \<noteq> uid_coach2"
  by (simp add: ids)

lemma cast_ids:
  "castObjectId tid_1 = Some tid_1" "castObjectId uid_fan1 = Some uid_fan1"
  "castObjectId uid_fan2 = Some uid_fan2" "castObjectId pid_1 = Some pid_1"
  by (simp_all add: castObjectId_def hex_digits_def lower_hex_def ids)

lemma valid_bea: "player_validation body_bea = []"
  by (simp add: player_validation_def body_bea_def isMongoId_def isHexadecimal_def
        hex_digits_def ids)

lemma valid_ann: "player_validation body_ann = []"
  by (simp add: player_validation_def body_ann_def body_bea_def isMongoId_def isHexadecimal_def
        hex_digits_def ids)

lemma bea_ids:
  "castObjectId (b_user body_bea) = Some uid_fan2" "castObjectId (b_team body_bea) = Some tid_1"
  by (simp_all add: body_bea_def cast_ids)

lemma ann_ids:
  "castObjectId (b_user body_ann) = Some uid_fan1" "castObjectId (b_team body_ann) = Some tid_1"
  by (simp_all add: body_ann_def body_bea_def cast_ids)

lemma db0_bea: "findById (users db0) uid_fan2 = Some (mk_user ''Bea'' Player [] None None)"
  by (simp add: findById_def db0_def ids)

lemma db0_ann:
  "findById (users db0) uid_fan1 = Some (mk_user ''Ann'' Player [] (Some tid_1) (Some pid_1))"
  by (simp add: findById_def db0_def ids)

lemma db0_team1: "findById (teams db0) tid_1 = Some (mk_team ''Hawks'' uid_coach1 [pid_1])"
  by (simp add: findById_def db0_def ids)

lemma db0_jersey: "jerseyTaken db0 tid_1 23 = Some (pid_1, player1)"
  by (simp add: jerseyTaken_def findOne_def db0_def player1_def)

lemma bea_no_profile: "existingPlayer db0 uid_fan2 = None"
  by (simp add: existingPlayer_def findOne_def db0_def player1_def ids)

lemma ann_profile: "existingPlayer db0 uid_fan1 = Some (pid_1, player1)"
  by (simp add: existingPlayer_def findOne_def db0_def player1_def)

text \<open>
  C5 as stated, that every creation request with a taken (team, jersey number) is
  answered 400 "Jersey number already taken in this team", fails: the jersey check is the
  last check of the handler. Jersey 23 of the Hawks is Ann's. Bea's request for it, sent
  by the coach who does not own the Hawks, is answered 403 by the ownership check; a
  second profile for Ann with it, sent by an admin, is answered 400 "User already has a
  player profile".
\<close>

theorem jersey_conflict_counterexample:
  "jerseyTaken db0 tid_1 23 = Some (pid_1, player1)
   \<and> castObjectId (b_team body_bea) = Some tid_1 \<and> b_jerseyNumber body_bea = 23
   \<and> fst (post_player env0 (Some act_coach2) body_bea db0)
        = failure 403 ''Not authorized to add players to this team''
   \<and> castObjectId (b_team body_ann) = Some tid_1 \<and> b_jerseyNumber body_ann = 23
   \<and> fst (post_player env0 (Some act_admin) body_ann db0)
        = failure 400 ''User already has a player profile''"
proof -
  have j: "b_jerseyNumber body_bea = 23" "b_jerseyNumber body_ann = 23"
    by (simp_all add: body_ann_def body_bea_def)
  have 1: "fst (post_player env0 (Some act_coach2) body_bea db0)
        = failure 403 ''Not authorized to add players to this team''"
    by (simp add: post_player_def gated_def valid_bea bea_ids db0_bea db0_team1
          mk_user_role mk_team_coach act_roles act_ids coaches_differ)
  have 2: "fst (post_player env0 (Some act_admin) body_ann db0)
        = failure 400 ''User already has a player profile''"
    by (simp add: post_player_def gated_def valid_ann ann_ids db0_ann db0_team1 ann_profile
          mk_user_role mk_team_coach act_roles act_ids)
  from j 1 2 db0_jersey bea_ids ann_ids show ?thesis by simp
qed

text \<open>
  C5, amended: when a player of the team named in the body already wears the jersey
  number of the body, the request fails (status 400, 401, 403 or 500) and leaves the whole
  store as it was, so no player document is written; and when the request passes the
  checks the handler runs first (role gate, field validation, the user exists with the
  player role, the team exists, a coach owns that team, the user has no profile yet) the
  answer is 400 "Jersey number already taken in this team".
\<close>

theorem jersey_conflict:
  assumes "castObjectId (b_team b) = Some team" and "(k, d) \<in> set (playersC st)"
    and "p_team d = Some team" and "jerseyNumber d = b_jerseyNumber b"
  shows "snd (post_player e u b st) = st
     \<and> \<not> success (fst (post_player e u b st))
     \<and> status (fst (post_player e u b st)) \<in> {400, 401, 403, 500}
     \<and> (\<forall>a user ux tx. u = Some a \<and> (a_role a = Admin \<or> a_role a = Coach)
           \<and> player_validation b = []
           \<and> castObjectId (b_user b) = Some user
           \<and> findById (users st) user = Some ux \<and> u_role ux = Player
           \<and> findById (teams st) team = Some tx
           \<and> (a_role a = Coach \<longrightarrow> coach tx = a_id a)
           \<and> existingPlayer st user = None
          \<longrightarrow> fst (post_player e u b st) = failure 400 ''Jersey number already taken in this team'')"
proof -
  have "findOne (playersC st) (\<lambda>x. p_team x = Some team \<and> jerseyNumber x = b_jerseyNumber b) \<noteq> None"
    using assms unfolding findOne_Some_iff by blast
  then obtain jt where jt: "jerseyTaken st team (b_jerseyNumber b) = Some jt"
    by (auto simp: jerseyTaken_def)
  show ?thesis
    using jt assms(1)
    by (auto simp: post_player_def gated_def resp split: option.splits)
qed

theorem jersey_conflict_witness:
  "castObjectId (b_team body_bea) = Some tid_1
   \<and> (pid_1, player1) \<in> set (playersC db0) \<and> p_team player1 = Some tid_1
   \<and> jerseyNumber player1 = b_jerseyNumber body_bea
   \<and> snd (post_player env0 (Some act_coach1) body_bea db0) = db0
   \<and> fst (post_player env0 (Some act_coach1) body_bea db0)
        = failure 400 ''Jersey number already taken in this team''"
proof -
  have a: "(pid_1, player1) \<in> set (playersC db0)" by (simp add: db0_def)
  have b: "p_team player1 = Some tid_1" by (simp add: player1_def)
  have c: "jerseyNumber player1 = b_jerseyNumber body_bea"
    by (simp add: player1_def body_bea_def)
  have r: "u_role (mk_user ''Bea'' Player [] None None) = Player" by (simp add: mk_user_def)
  have o: "coach (mk_team ''Hawks'' uid_coach1 [pid_1]) = a_id act_coach1"
    by (simp add: mk_team_def act_coach1_def)
  have g: "a_role act_coach1 = Coach" by (simp add: act_coach1_def)
  from jersey_conflict [OF bea_ids(2) a b c, of env0 "Some act_coach1"]
    a b c bea_ids db0_bea db0_team1 bea_no_profile r o g valid_bea
  show ?thesis by blast
qed

section \<open>Ownership checks\<close>

lemma put_team_forbidden:
  "a_role a = Coach \<Longrightarrow> findById (teams st) i = Some t \<Longrightarrow> coach t \<noteq> a_id a \<Longrightarrow>
   put_team (Some a) (Oid i) b st = (failure 403 ''Not authorized to update this team'', st)"
  by (simp add: put_team_def gated_def not_team_owner_def)

lemma delete_team_forbidden:
  "a_role a = Coach \<Longrightarrow> findById (teams st) i = Some t \<Longrightarrow> coach t \<noteq> a_id a \<Longrightarrow>
   delete_team (Some a) (Oid i) st = (failure 403 ''Not authorized to delete this team'', st)"
  by (simp add: delete_team_def gated_def not_team_owner_def)

lemma post_team_player_forbidden:
  "a_role a = Coach \<Longrightarrow> findById (teams st) i = Some t \<Longrightarrow> coach t \<noteq> a_id a \<Longrightarrow>
   isMongoId playerId \<Longrightarrow>
   post_team_player (Some a) (Oid i) playerId st
     = (failure 403 ''Not authorized to manage this team'', st)"
  by (simp add: post_team_player_def gated_def not_team_owner_def)

lemma delete_team_player_forbidden:
  "a_role a = Coach \<Longrightarrow> findById (teams st) i = Some t \<Longrightarrow> coach t \<noteq> a_id a \<Longrightarrow>
   delete_team_player (Some a) (Oid i) j st
     = (failure 403 ''Not authorized to manage this team'', st)"
  by (simp add: delete_team_player_def gated_def not_team_owner_def)

lemma post_player_forbidden:
  "a_role a = Coach \<Longrightarrow> player_validation b = [] \<Longrightarrow>
   castObjectId (b_user b) = Some user \<Longrightarrow>
   findById (users st) user = Some ux \<Longrightarrow> u_role ux = Player \<Longrightarrow>
   castObjectId (b_team b) = Some team \<Longrightarrow>
   findById (teams st) team = Some tx \<Longrightarrow> coach tx \<noteq> a_id a \<Longrightarrow>
   post_player e (Some a) b st
     = (failure 403 ''Not authorized to add players to this team'', st)"
  by (simp add: post_player_def gated_def)

lemma put_player_forbidden:
  "a_role a = Coach \<Longrightarrow> findById (playersC st) i = Some p \<Longrightarrow> p_team p = Some tid \<Longrightarrow>
   findById (teams st) tid = Some t \<Longrightarrow> coach t \<noteq> a_id a \<Longrightarrow>
   put_player (Some a) (Oid i) b st = (failure 403 ''Not authorized to update this player'', st)"
  by (simp add: put_player_def gated_def populate_team_def)

lemma delete_player_forbidden:
  "a_role a = Coach \<Longrightarrow> findById (playersC st) i = Some p \<Longrightarrow> p_team p = Some tid \<Longrightarrow>
   findById (teams st) tid = Some t \<Longrightarrow> coach t \<noteq> a_id a \<Longrightarrow>
   delete_player (Some a) (Oid i) st = (failure 403 ''Not authorized to delete this player'', st)"
  by (simp add: delete_player_def gated_def populate_team_def)

text \<open>A game route answers any coach as it answers any admin.\<close>

lemma game_routes_ignore_actor:
  "a_role a \<in> {Admin, Coach} \<Longrightarrow> a_role a' \<in> {Admin, Coach} \<Longrightarrow>
   put_game (Some a) pid gb st = put_game (Some a') pid gb st
   \<and> put_game_score (Some a) pid h w srv = put_game_score (Some a') pid h w srv"
  by (auto simp: put_game_def put_game_score_def gated_def)

lemma db0_player1: "findById (playersC db0) pid_1 = Some player1"
  by (simp add: findById_def db0_def)

lemma db0_game1: "findById (games db0) gid_1 = Some game1"
  by (simp add: findById_def db0_def)

lemma hawks_not_dana: "coach (mk_team ''Hawks'' uid_coach1 [pid_1]) \<noteq> a_id act_coach2"
  by (simp add: mk_team_def act_coach2_def ids)

text \<open>
  C2 as stated, that a coach who does not own the target is always answered 403,
  fails. The game routes have no ownership check: Dana coaches neither team of game
  \<open>gid_1\<close>, and her score update is answered 200 and changes the stored game. On the
  team and player routes the checks that precede the ownership check answer first: her
  roster request for the Hawks with a malformed player id, and her creation request for a
  user that does not exist, are answered 400.
\<close>

theorem coach_gate_counterexample:
  "a_role act_coach2 = Coach
   \<and> findById (games (db srv1)) gid_1 = Some game1
   \<and> map_option coach (findById (teams (db srv1)) (homeTeam game1)) = Some uid_coach1
   \<and> map_option coach (findById (teams (db srv1)) (awayTeam game1)) = Some uid_coach1
   \<and> a_id act_coach2 \<noteq> uid_coach1
   \<and> status (fst (put_game_score (Some act_coach2) (Oid gid_1) 57 61 srv1)) = 200
   \<and> findById (games (db (snd (put_game_score (Some act_coach2) (Oid gid_1) 57 61 srv1)))) gid_1
        = Some (game1\<lparr>homeScore := 57, awayScore := 61\<rparr>)
   \<and> game1\<lparr>homeScore := 57, awayScore := 61\<rparr> \<noteq> game1
   \<and> post_team_player (Some act_coach2) (Oid tid_1) ''ann'' db0
        = (validation_errors [''Valid player ID is required''], db0)
   \<and> post_player env0 (Some act_coach2) body_ghost db0
        = (failure 400 ''User must exist and have player role'', db0)"
proof -
  have c: "a_role act_coach2 = Admin \<or> a_role act_coach2 = Coach" "a_role act_coach2 = Coach"
    by (simp_all add: act_coach2_def)
  note s = put_game_score_ok [OF srv1_game1 c(1) isInt_min0_57_61]
  have t: "map_option coach (findById (teams (db srv1)) (homeTeam game1)) = Some uid_coach1"
      "map_option coach (findById (teams (db srv1)) (awayTeam game1)) = Some uid_coach1"
    by (simp_all add: srv1_def game1_def findById_def db0_def mk_team_def ids)
  have n: "a_id act_coach2 \<noteq> uid_coach1" by (simp add: act_coach2_def ids)
  have d: "game1\<lparr>homeScore := 57, awayScore := 61\<rparr> \<noteq> game1" by (simp add: game1_def)
  have r: "post_team_player (Some act_coach2) (Oid tid_1) ''ann'' db0
        = (validation_errors [''Valid player ID is required''], db0)"
    using c(2) by (simp add: post_team_player_def gated_def isMongoId_def)
  have v: "player_validation body_ghost = []"
    by (simp add: player_validation_def body_ghost_def body_bea_def isMongoId_def
          isHexadecimal_def hex_digits_def ids)
  have g: "castObjectId (b_user body_ghost) = Some ''000000000000000000000000''"
    by (simp add: body_ghost_def body_bea_def castObjectId_def hex_digits_def lower_hex_def)
  have u: "findById (users db0) ''000000000000000000000000'' = None"
    by (simp add: findById_def db0_def ids)
  have p: "post_player env0 (Some act_coach2) body_ghost db0
        = (failure 400 ''User must exist and have player role'', db0)"
    using c(2) by (simp add: post_player_def gated_def v g u)
  show ?thesis
    using c t n d srv1_game1 r p by (simp add: s broadcast_to_def findById_update ok_def)
qed

text \<open>
  C2, amended: on the team routes (update, delete, roster add, roster remove) and the
  player routes (create, update, delete) a coach who is not the coach of the target team
  (for a player, of the team the player's document points to; for a creation, of the team
  named in the body) is answered 403 and the store is left as it was, once the request has
  passed the checks that the handler runs before the ownership check (the body validation
  of roster add and of create, and for create the user's existence and player role). The
  game update and score routes have no ownership check: they answer a coach exactly as
  they answer an admin.
\<close>

theorem coach_gate:
  assumes "a_role a = Coach"
  shows "(\<forall>i t b. findById (teams st) i = Some t \<and> coach t \<noteq> a_id a \<longrightarrow>
            put_team (Some a) (Oid i) b st = (failure 403 ''Not authorized to update this team'', st))
     \<and> (\<forall>i t. findById (teams st) i = Some t \<and> coach t \<noteq> a_id a \<longrightarrow>
            delete_team (Some a) (Oid i) st = (failure 403 ''Not authorized to delete this team'', st))
     \<and> (\<forall>i t playerId. findById (teams st) i = Some t \<and> coach t \<noteq> a_id a \<and> isMongoId playerId \<longrightarrow>
            post_team_player (Some a) (Oid i) playerId st
              = (failure 403 ''Not authorized to manage this team'', st))
     \<and> (\<forall>i t j. findById (teams st) i = Some t \<and> coach t \<noteq> a_id a \<longrightarrow>
            delete_team_player (Some a) (Oid i) j st
              = (failure 403 ''Not authorized to manage this team'', st))
     \<and> (\<forall>e b user ux team tx. player_validation b = []
            \<and> castObjectId (b_user b) = Some user
            \<and> findById (users st) user = Some ux \<and> u_role ux = Player
            \<and> castObjectId (b_team b) = Some team
            \<and> findById (teams st) team = Some tx \<and> coach tx \<noteq> a_id a \<longrightarrow>
            post_player e (Some a) b st
              = (failure 403 ''Not authorized to add players to this team'', st))
     \<and> (\<forall>i p tid t b. findById (playersC st) i = Some p \<and> p_team p = Some tid
            \<and> findById (teams st) tid = Some t \<and> coach t \<noteq> a_id a \<longrightarrow>
            put_player (Some a) (Oid i) b st
              = (failure 403 ''Not authorized to update this player'', st))
     \<and> (\<forall>i p tid t. findById (playersC st) i = Some p \<and> p_team p = Some tid
            \<and> findById (teams st) tid = Some t \<and> coach t \<noteq> a_id a \<longrightarrow>
            delete_player (Some a) (Oid i) st
              = (failure 403 ''Not authorized to delete this player'', st))
     \<and> (\<forall>a' pid gb h w srv. a_role a' = Admin \<longrightarrow>
            put_game (Some a) pid gb st = put_game (Some a') pid gb st
            \<and> put_game_score (Some a) pid h w srv = put_game_score (Some a') pid h w srv)"
  apply (intro conjI allI impI)
  subgoal for i t b using put_team_forbidden [OF assms, of st i t b] by blast
  subgoal for i t using delete_team_forbidden [OF assms, of st i t] by blast
  subgoal for i t playerId
    using post_team_player_forbidden [OF assms, of st i t playerId] by blast
  subgoal for i t j using delete_team_player_forbidden [OF assms, of st i t j] by blast
  subgoal for e b user ux team tx
    using post_player_forbidden [OF assms, of b user st ux team tx e] by blast
  subgoal for i p tid t b using put_player_forbidden [OF assms, of st i p tid t b] by blast
  subgoal for i p tid t using delete_player_forbidden [OF assms, of st i p tid t] by blast
  subgoal for a' pid gb h w srv
    using game_routes_ignore_actor [of a a' pid gb st h w srv] assms by simp
  subgoal for a' pid gb h w srv
    using game_routes_ignore_actor [of a a' pid gb st h w srv] assms by simp
  done

theorem coach_gate_witness:
  "a_role act_coach2 = Coach
   \<and> put_team (Some act_coach2) (Oid tid_1) rename_team db0
        = (failure 403 ''Not authorized to update this team'', db0)
   \<and> delete_team (Some act_coach2) (Oid tid_1) db0
        = (failure 403 ''Not authorized to delete this team'', db0)
   \<and> post_team_player (Some act_coach2) (Oid tid_1) pid_1 db0
        = (failure 403 ''Not authorized to manage this team'', db0)
   \<and> delete_team_player (Some act_coach2) (Oid tid_1) (Oid pid_1) db0
        = (failure 403 ''Not authorized to manage this team'', db0)
   \<and> post_player env0 (Some act_coach2) body_bea db0
        = (failure 403 ''Not authorized to add players to this team'', db0)
   \<and> put_player (Some act_coach2) (Oid pid_1) bench_player db0
        = (failure 403 ''Not authorized to update this player'', db0)
   \<and> delete_player (Some act_coach2) (Oid pid_1) db0
        = (failure 403 ''Not authorized to delete this player'', db0)
   \<and> put_game_score (Some act_coach2) (Oid gid_1) 57 61 srv1
        = put_game_score (Some act_admin) (Oid gid_1) 57 61 srv1"
proof -
  have g: "a_role act_coach2 = Coach" by (simp add: act_coach2_def)
  note cg = coach_gate [OF g, of db0]
  have m: "isMongoId pid_1" by (simp add: isMongoId_def isHexadecimal_def hex_digits_def ids)
  have r: "u_role (mk_user ''Bea'' Player [] None None) = Player" by (simp add: mk_user_def)
  have pt: "p_team player1 = Some tid_1" by (simp add: player1_def)
  have ad: "a_role act_admin = Admin" by (simp add: act_admin_def)
  have 1: "put_team (Some act_coach2) (Oid tid_1) rename_team db0
        = (failure 403 ''Not authorized to update this team'', db0)"
    using cg [THEN conjunct1, rule_format, of tid_1 _ rename_team] db0_team1 hawks_not_dana
    by simp
  have 2: "delete_team (Some act_coach2) (Oid tid_1) db0
        = (failure 403 ''Not authorized to delete this team'', db0)"
    using cg [THEN conjunct2, THEN conjunct1, rule_format, of tid_1] db0_team1 hawks_not_dana
    by simp
  have 3: "post_team_player (Some act_coach2) (Oid tid_1) pid_1 db0
        = (failure 403 ''Not authorized to manage this team'', db0)"
    using cg [THEN conjunct2, THEN conjunct2, THEN conjunct1, rule_format, of tid_1 _ pid_1]
      db0_team1 hawks_not_dana m by simp
  have 4: "delete_team_player (Some act_coach2) (Oid tid_1) (Oid pid_1) db0
        = (failure 403 ''Not authorized to manage this team'', db0)"
    using cg [THEN conjunct2, THEN conjunct2, THEN conjunct2, THEN conjunct1, rule_format,
              of tid_1 _ "Oid pid_1"]
      db0_team1 hawks_not_dana by simp
  have 5: "post_player env0 (Some act_coach2) body_bea db0
        = (failure 403 ''Not authorized to add players to this team'', db0)"
    using cg [THEN conjunct2, THEN conjunct2, THEN conjunct2, THEN conjunct2, THEN conjunct1,
              rule_format, of body_bea uid_fan2 _ tid_1 _ env0]
      valid_bea bea_ids db0_bea db0_team1 r hawks_not_dana by simp
  have 6: "put_player (Some act_coach2) (Oid pid_1) bench_player db0
        = (failure 403 ''Not authorized to update this player'', db0)"
    using cg [THEN conjunct2, THEN conjunct2, THEN conjunct2, THEN conjunct2, THEN conjunct2,
              THEN conjunct1, rule_format, of pid_1 _ tid_1 _ bench_player]
      db0_player1 pt db0_team1 hawks_not_dana by simp
  have 7: "delete_player (Some act_coach2) (Oid pid_1) db0
        = (failure 403 ''Not authorized to delete this player'', db0)"
    using cg [THEN conjunct2, THEN conjunct2, THEN conjunct2, THEN conjunct2, THEN conjunct2,
              THEN conjunct2, THEN conjunct1, rule_format, of pid_1 _ tid_1]
      db0_player1 pt db0_team1 hawks_not_dana by simp
  have 8: "put_game_score (Some act_coach2) (Oid gid_1) 57 61 srv1
        = put_game_score (Some act_admin) (Oid gid_1) 57 61 srv1"
    using cg [THEN conjunct2, THEN conjunct2, THEN conjunct2, THEN conjunct2, THEN conjunct2,
              THEN conjunct2, THEN conjunct2, rule_format, of act_admin] ad by simp
  from g 1 2 3 4 5 6 7 8 show ?thesis by simp
qed

end
